theory Spec2Isabelle
  imports Complex_Main
begin

section \<open>JavaScript numbers and strings\<close>

text \<open>
  The front end is TypeScript. A value of type \<open>number\<close> is a finite number, one of the
  two infinities or NaN. Finite values are embedded in the reals (every finite double is a
  real and the embedding keeps the order), so a statement about all of \<open>number\<close> covers
  every double the program can hold.
\<close>

datatype number = NaN | NegInf | Fin real | PosInf

text \<open>
  The relational operators \<open>>=\<close>, \<open><=\<close> and \<open><\<close> of the language: any comparison
  with NaN is false.
\<close>

fun js_le :: "number \<Rightarrow> number \<Rightarrow> bool" where
  "js_le NaN b = False"
| "js_le a NaN = False"
| "js_le NegInf b = True"
| "js_le a PosInf = True"
| "js_le (Fin x) (Fin y) = (x \<le> y)"
| "js_le (Fin x) NegInf = False"
| "js_le PosInf b = False"

definition js_ge :: "number \<Rightarrow> number \<Rightarrow> bool" where
  "js_ge a b = js_le b a"

fun js_lt :: "number \<Rightarrow> number \<Rightarrow> bool" where
  "js_lt NaN b = False"
| "js_lt a NaN = False"
| "js_lt (Fin x) (Fin y) = (x < y)"
| "js_lt NegInf NegInf = False"
| "js_lt NegInf b = True"
| "js_lt PosInf b = False"
| "js_lt (Fin x) PosInf = True"
| "js_lt (Fin x) NegInf = False"

text \<open>
  String literals outside ASCII are kept as their UTF-8 bytes. The five level labels of
  the result payload are the two-character words U+4F18 U+79C0 (excellent),
  U+826F U+597D (good), U+4E00 U+822C (fair), U+8F83 U+5DEE (poor) and
  U+5F88 U+5DEE (very poor).
\<close>

definition label_excellent :: string where
  "label_excellent = [CHR 0xE4, CHR 0xBC, CHR 0x98, CHR 0xE7, CHR 0xA7, CHR 0x80]"

definition label_good :: string where
  "label_good = [CHR 0xE8, CHR 0x89, CHR 0xAF, CHR 0xE5, CHR 0xA5, CHR 0xBD]"

definition label_fair :: string where
  "label_fair = [CHR 0xE4, CHR 0xB8, CHR 0x80, CHR 0xE8, CHR 0x88, CHR 0xAC]"

definition label_poor :: string where
  "label_poor = [CHR 0xE8, CHR 0xBE, CHR 0x83, CHR 0xE5, CHR 0xB7, CHR 0xAE]"

definition label_verypoor :: string where
  "label_verypoor = [CHR 0xE5, CHR 0xBE, CHR 0x88, CHR 0xE5, CHR 0xB7, CHR 0xAE]"

section \<open>The five-tier classifiers of the result views\<close>

text \<open>
  \<open>getScoreColor\<close> and \<open>getScoreLevel\<close> are written out twice in the sources, once in
  the component AnalysisResults and once in DecisionAnalysis. Each copy is embedded on
  its own, in the order of its \<open>if\<close> chain.
\<close>

definition AnalysisResults_getScoreColor :: "number \<Rightarrow> string" where
  "AnalysisResults_getScoreColor s =
     (if js_ge s (Fin 90) then ''#52c41a''
      else if js_ge s (Fin 75) then ''#1890ff''
      else if js_ge s (Fin 60) then ''#faad14''
      else if js_ge s (Fin 45) then ''#ff7875''
      else ''#f5222d'')"

definition AnalysisResults_getScoreLevel :: "number \<Rightarrow> string" where
  "AnalysisResults_getScoreLevel s =
     (if js_ge s (Fin 90) then label_excellent
      else if js_ge s (Fin 75) then label_good
      else if js_ge s (Fin 60) then label_fair
      else if js_ge s (Fin 45) then label_poor
      else label_verypoor)"

definition DecisionAnalysis_getScoreColor :: "number \<Rightarrow> string" where
  "DecisionAnalysis_getScoreColor s =
     (if js_ge s (Fin 90) then ''#52c41a''
      else if js_ge s (Fin 75) then ''#1890ff''
      else if js_ge s (Fin 60) then ''#faad14''
      else if js_ge s (Fin 45) then ''#ff7875''
      else ''#f5222d'')"

definition DecisionAnalysis_getScoreLevel :: "number \<Rightarrow> string" where
  "DecisionAnalysis_getScoreLevel s =
     (if js_ge s (Fin 90) then label_excellent
      else if js_ge s (Fin 75) then label_good
      else if js_ge s (Fin 60) then label_fair
      else if js_ge s (Fin 45) then label_poor
      else label_verypoor)"

text \<open>
  The order of the levels, very poor < poor < fair < good < excellent, as a rank of the
  label. A string that is no level label has no rank.
\<close>

definition level_rank :: "string \<Rightarrow> nat option" where
  "level_rank l =
     (if l = label_verypoor then Some 0
      else if l = label_poor then Some 1
      else if l = label_fair then Some 2
      else if l = label_good then Some 3
      else if l = label_excellent then Some 4
      else None)"

section \<open>The analysis payload as the views read it\<close>

text \<open>
  The components take \<open>data: any\<close> and read it through optional chains, so every field
  may be absent: an absent (undefined or null) field is \<open>None\<close>. Only the fields of
  \<open>decision_recommendation\<close> that the modelled parts read are kept. The object
  \<open>detailed_scores\<close> is the list of its entries in key order, with distinct keys;
  an entry whose value is null is \<open>None\<close>.
\<close>

record score_json =
  score :: "number option"
  level :: "string option"

record risk_assessment_json =
  risk_level :: "string option"
  risks :: "string list option"
  mitigation_measures :: "string list option"

record decision_recommendation_json =
  overall_score :: "score_json option"
  detailed_scores :: "(string \<times> score_json option) list option"
  decision_level :: "string option"
  risk_assessment :: "risk_assessment_json option"
  recommendations :: "string list option"
  analysis_date :: "string option"

record analysis_data =
  decision_recommendation :: "decision_recommendation_json option"

text \<open>
  \<open>a || b\<close>: the left operand unless it is falsy. An absent value, NaN and zero are the
  falsy numbers; an absent value and the empty string are the falsy strings.
\<close>

definition number_or :: "number option \<Rightarrow> number \<Rightarrow> number" where
  "number_or a b =
     (case a of None \<Rightarrow> b | Some n \<Rightarrow> if n = NaN \<or> n = Fin 0 then b else n)"

definition string_or :: "string option \<Rightarrow> string \<Rightarrow> string" where
  "string_or a b = (case a of None \<Rightarrow> b | Some s \<Rightarrow> if s = [] then b else s)"

text \<open>The chain \<open>decision_recommendation?.overall_score?.score\<close>.\<close>

definition overall_score_of :: "decision_recommendation_json option \<Rightarrow> number option" where
  "overall_score_of dr = Option.bind (Option.bind dr overall_score) score"

text \<open>The chain \<open>decision_recommendation?.detailed_scores?.<key>?.score\<close>.\<close>

definition detailed_score_of ::
  "decision_recommendation_json option \<Rightarrow> string \<Rightarrow> number option" where
  "detailed_score_of dr k =
     Option.bind
       (Option.bind (Option.bind (Option.bind dr detailed_scores) (\<lambda>ds. map_of ds k)) id)
       score"

text \<open>The chain \<open>decision_recommendation?.risk_assessment?.mitigation_measures\<close>.\<close>

definition mitigation_measures_of ::
  "decision_recommendation_json option \<Rightarrow> string list option" where
  "mitigation_measures_of dr = Option.bind (Option.bind dr risk_assessment) mitigation_measures"

definition risks_of :: "decision_recommendation_json option \<Rightarrow> string list option" where
  "risks_of dr = Option.bind (Option.bind dr risk_assessment) risks"

definition risk_level_of :: "decision_recommendation_json option \<Rightarrow> string option" where
  "risk_level_of dr = Option.bind (Option.bind dr risk_assessment) risk_level"

section \<open>The overall score ring of DecisionAnalysis\<close>

text \<open>
  The circular progress element gets \<open>percent\<close> and \<open>strokeColor\<close> and prints the level
  below the number; all three are computed from \<open>overall_score.score || 0\<close>.
\<close>

record progress_props =
  percent :: number
  strokeColor :: string
  level_text :: string

definition DecisionAnalysis_overall :: "decision_recommendation_json option \<Rightarrow> progress_props" where
  "DecisionAnalysis_overall dr =
     \<lparr>percent = number_or (overall_score_of dr) (Fin 0),
      strokeColor = DecisionAnalysis_getScoreColor (number_or (overall_score_of dr) (Fin 0)),
      level_text = DecisionAnalysis_getScoreLevel (number_or (overall_score_of dr) (Fin 0))\<rparr>"

section \<open>The radar data of DecisionAnalysis\<close>

text \<open>
  Before anything is rendered the component computes \<open>radarData\<close>: when
  \<open>detailed_scores\<close> is present it maps over \<open>Object.entries(detailed_scores)\<close> and
  reads \<open>score.score\<close> of every entry with no guard, otherwise the data is the empty
  list. Reading a property of a null entry throws a TypeError, which ends the rendering
  of the component. In each item the first underscore of the key is replaced by a space.
\<close>

datatype js_error = TypeError

definition detailed_entries ::
  "decision_recommendation_json option \<Rightarrow> (string \<times> score_json option) list" where
  "detailed_entries dr = (case Option.bind dr detailed_scores of None \<Rightarrow> [] | Some ds \<Rightarrow> ds)"

fun replace_first_underscore :: "string \<Rightarrow> string" where
  "replace_first_underscore [] = []"
| "replace_first_underscore (c # cs) =
     (if c = CHR ''_'' then CHR '' '' # cs else c # replace_first_underscore cs)"

record radar_item =
  criterion_name :: string
  item_score :: "number option"
  fullMark :: number

fun radarData_map :: "(string \<times> score_json option) list \<Rightarrow> js_error + radar_item list" where
  "radarData_map [] = Inr []"
| "radarData_map ((k, None) # es) = Inl TypeError"
| "radarData_map ((k, Some e) # es) =
     (case radarData_map es of
        Inl err \<Rightarrow> Inl err
      | Inr items \<Rightarrow>
          Inr (\<lparr>criterion_name = replace_first_underscore k, item_score = score e,
                fullMark = Fin 100\<rparr> # items))"

definition radarData :: "decision_recommendation_json option \<Rightarrow> js_error + radar_item list" where
  "radarData dr = radarData_map (detailed_entries dr)"

text \<open>
  Each item becomes a row of the score details: the score, its colour and its level. The
  score of an item can be absent; in a comparison an undefined operand is NaN and a null
  operand is 0, and both classifiers send either to the lowest tier, as they send NaN. The
  lookup of the display name in \<open>criteriaLabels\<close> reads a property of an object
  literal, which cannot throw, and is left out: a row keeps the name of its item.
\<close>

definition number_of :: "number option \<Rightarrow> number" where
  "number_of v = (case v of None \<Rightarrow> NaN | Some n \<Rightarrow> n)"

record detail_row =
  row_name :: string
  row_score :: "number option"
  row_color :: string
  row_level :: string

definition DecisionAnalysis_detail_row :: "radar_item \<Rightarrow> detail_row" where
  "DecisionAnalysis_detail_row item =
     \<lparr>row_name = criterion_name item,
      row_score = item_score item,
      row_color = DecisionAnalysis_getScoreColor (number_of (item_score item)),
      row_level = DecisionAnalysis_getScoreLevel (number_of (item_score item))\<rparr>"

section \<open>The rest of the DecisionAnalysis view\<close>

text \<open>
  The decision levels U+5F3A U+70C8 U+63A8 U+8350 (strongly recommended),
  U+63A8 U+8350 (recommended), U+53EF U+4EE5 U+8003 U+8651 (worth considering),
  U+4E0D U+63A8 U+8350 (not recommended) and U+5F3A U+70C8 U+4E0D U+63A8 U+8350
  (strongly not recommended); the risk levels U+4F4E (low) and U+4E2D (medium); and the
  text U+672A U+77E5 (unknown) shown for an absent label.
\<close>

definition tier_strongly_recommended :: string where
  "tier_strongly_recommended =
     [CHR 0xE5, CHR 0xBC, CHR 0xBA, CHR 0xE7, CHR 0x83, CHR 0x88,
      CHR 0xE6, CHR 0x8E, CHR 0xA8, CHR 0xE8, CHR 0x8D, CHR 0x90]"

definition tier_recommended :: string where
  "tier_recommended = [CHR 0xE6, CHR 0x8E, CHR 0xA8, CHR 0xE8, CHR 0x8D, CHR 0x90]"

definition tier_worth_considering :: string where
  "tier_worth_considering =
     [CHR 0xE5, CHR 0x8F, CHR 0xAF, CHR 0xE4, CHR 0xBB, CHR 0xA5,
      CHR 0xE8, CHR 0x80, CHR 0x83, CHR 0xE8, CHR 0x99, CHR 0x91]"

definition tier_not_recommended :: string where
  "tier_not_recommended =
     [CHR 0xE4, CHR 0xB8, CHR 0x8D, CHR 0xE6, CHR 0x8E, CHR 0xA8, CHR 0xE8, CHR 0x8D, CHR 0x90]"

definition tier_strongly_not_recommended :: string where
  "tier_strongly_not_recommended =
     [CHR 0xE5, CHR 0xBC, CHR 0xBA, CHR 0xE7, CHR 0x83, CHR 0x88, CHR 0xE4, CHR 0xB8, CHR 0x8D,
      CHR 0xE6, CHR 0x8E, CHR 0xA8, CHR 0xE8, CHR 0x8D, CHR 0x90]"

definition risk_low :: string where
  "risk_low = [CHR 0xE4, CHR 0xBD, CHR 0x8E]"

definition risk_medium :: string where
  "risk_medium = [CHR 0xE4, CHR 0xB8, CHR 0xAD]"

definition text_unknown :: string where
  "text_unknown = [CHR 0xE6, CHR 0x9C, CHR 0xAA, CHR 0xE7, CHR 0x9F, CHR 0xA5]"

definition getDecisionLevelColor :: "string \<Rightarrow> string" where
  "getDecisionLevelColor l =
     (if l = tier_strongly_recommended then ''green''
      else if l = tier_recommended then ''blue''
      else if l = tier_worth_considering then ''orange''
      else if l = tier_not_recommended then ''red''
      else if l = tier_strongly_not_recommended then ''red''
      else ''default'')"

record tag_props =
  tag_color :: string
  tag_text :: string

definition DecisionAnalysis_decision_tag :: "decision_recommendation_json option \<Rightarrow> tag_props" where
  "DecisionAnalysis_decision_tag dr =
     \<lparr>tag_color = getDecisionLevelColor (string_or (Option.bind dr decision_level) []),
      tag_text = string_or (Option.bind dr decision_level) text_unknown\<rparr>"

definition DecisionAnalysis_risk_tag :: "decision_recommendation_json option \<Rightarrow> tag_props" where
  "DecisionAnalysis_risk_tag dr =
     \<lparr>tag_color =
        (if risk_level_of dr = Some risk_low then ''green''
         else if risk_level_of dr = Some risk_medium then ''orange'' else ''red''),
      tag_text = string_or (risk_level_of dr) text_unknown\<rparr>"

text \<open>
  The list of main risks is rendered only under \<open>risks?.length > 0\<close>; with an absent
  list the comparison \<open>undefined > 0\<close> is false.
\<close>

definition DecisionAnalysis_main_risks ::
  "decision_recommendation_json option \<Rightarrow> string list option" where
  "DecisionAnalysis_main_risks dr =
     (case risks_of dr of
        None \<Rightarrow> None
      | Some rs \<Rightarrow> if length rs > 0 then Some rs else None)"

text \<open>
  The mitigation column is a conditional expression on \<open>mitigation_measures?.length > 0\<close>:
  the list of measures, or else an info alert titled U+6682 U+65E0 U+98CE U+9669 U+7F13
  U+89E3 U+63AA U+65BD (no risk mitigation measures for now) whose description says that
  the assessed risk is low and no special mitigation is needed.
\<close>

datatype mitigation_panel = MeasureList "string list" | NoMitigationAlert

definition DecisionAnalysis_mitigation ::
  "decision_recommendation_json option \<Rightarrow> mitigation_panel" where
  "DecisionAnalysis_mitigation dr =
     (case mitigation_measures_of dr of
        None \<Rightarrow> NoMitigationAlert
      | Some ms \<Rightarrow> if length ms > 0 then MeasureList ms else NoMitigationAlert)"

text \<open>The four key statistics, each \<open>detailed_scores?.<key>?.score || 0\<close>.\<close>

definition DecisionAnalysis_statistic ::
  "decision_recommendation_json option \<Rightarrow> string \<Rightarrow> number" where
  "DecisionAnalysis_statistic dr k = number_or (detailed_score_of dr k) (Fin 0)"

text \<open>The list of recommendations is \<open>recommendations || []\<close>.\<close>

definition DecisionAnalysis_recommendations ::
  "decision_recommendation_json option \<Rightarrow> string list" where
  "DecisionAnalysis_recommendations dr =
     (case Option.bind dr recommendations of None \<Rightarrow> [] | Some rs \<Rightarrow> rs)"

record decision_view =
  overall_ring :: progress_props
  decision_tag :: tag_props
  detail_rows :: "detail_row list"
  recommendation_items :: "string list"
  risk_tag :: tag_props
  main_risks :: "string list option"
  mitigation :: mitigation_panel
  stat_land_suitability :: number
  stat_energy_resources :: number
  stat_economic_feasibility :: number
  stat_environmental_impact :: number

text \<open>
  The component returns a placeholder card under \<open>!data\<close>. Otherwise it computes the
  radar data, which can throw, and returns the view. The formatted date and the drawing
  of the radar chart itself are not part of the model.
\<close>

datatype 'v render = NoDataCard | View 'v

definition DecisionAnalysis :: "analysis_data option \<Rightarrow> js_error + decision_view render" where
  "DecisionAnalysis data =
     (case data of
        None \<Rightarrow> Inr NoDataCard
      | Some d \<Rightarrow>
          (case radarData (decision_recommendation d) of
             Inl err \<Rightarrow> Inl err
           | Inr items \<Rightarrow>
               Inr (View
                 \<lparr>overall_ring = DecisionAnalysis_overall (decision_recommendation d),
                  decision_tag = DecisionAnalysis_decision_tag (decision_recommendation d),
                  detail_rows = map DecisionAnalysis_detail_row items,
                  recommendation_items =
                    DecisionAnalysis_recommendations (decision_recommendation d),
                  risk_tag = DecisionAnalysis_risk_tag (decision_recommendation d),
                  main_risks = DecisionAnalysis_main_risks (decision_recommendation d),
                  mitigation = DecisionAnalysis_mitigation (decision_recommendation d),
                  stat_land_suitability =
                    DecisionAnalysis_statistic (decision_recommendation d) ''land_suitability'',
                  stat_energy_resources =
                    DecisionAnalysis_statistic (decision_recommendation d) ''energy_resources'',
                  stat_economic_feasibility =
                    DecisionAnalysis_statistic (decision_recommendation d)
                      ''economic_feasibility'',
                  stat_environmental_impact =
                    DecisionAnalysis_statistic (decision_recommendation d)
                      ''environmental_impact''\<rparr>)))"

section \<open>The custom-coordinate button of the application\<close>

text \<open>
  The click handler of the analyse button reads the two text inputs \<open>customLat\<close> and
  \<open>customLng\<close> and the selected radius. It either calls \<open>handleAnalyze\<close>, which posts
  the analysis request, or raises one of two alerts: one asking for a valid range
  (latitude -90 to 90, longitude -180 to 180), one asking for latitude and longitude.
  \<open>parseFloat\<close> is the host's function and is a parameter here. A string is truthy when
  it is not empty.
\<close>

datatype alert_message = EnterValidRange | EnterLatLng

datatype effect = CallHandleAnalyze number number number | Alert alert_message

definition analyzeButton_onClick ::
  "(string \<Rightarrow> number) \<Rightarrow> string \<Rightarrow> string \<Rightarrow> number \<Rightarrow> effect" where
  "analyzeButton_onClick parseFloat customLat customLng customRadius =
     (if customLat \<noteq> [] \<and> customLng \<noteq> [] then
        (let lat = parseFloat customLat; lng = parseFloat customLng in
         if js_ge lat (Fin (- 90)) \<and> js_le lat (Fin 90) \<and>
            js_ge lng (Fin (- 180)) \<and> js_le lng (Fin 180)
         then CallHandleAnalyze lat lng customRadius
         else Alert EnterValidRange)
      else Alert EnterLatLng)"

section \<open>The decision engine, modelled from the specification\<close>

text \<open>
  Modelled from the spec: the decision engine itself (the back end's decision analysis)
  is not among the source files, only the views that render its result are. Its
  components follow the words of the specification, scores as reals, the static
  configuration as a record that is a parameter of every run. First the five levels, the
  five decision tiers, the three risk levels, the two directions and the two groups of
  the data model, and the two failures of the error taxonomy that reach the caller.
\<close>

datatype level = VeryPoor | Poor | Fair | Good | Excellent

datatype tier =
  StronglyNotRecommended | NotRecommended | WorthConsidering | Recommended | StronglyRecommended

datatype risk = RiskLow | RiskMedium | RiskHigh

datatype direction = Benefit | Cost

datatype criterion_group = Economic | NaturalTechnical

datatype engine_error = InvalidMeasurement | ConfigurationError

text \<open>
  Modelled from the spec: the Criterion of the data model (identifier, direction, weight,
  normalization curve), with its group and its declared physical domain.
\<close>

record criterion =
  crit_id :: string
  crit_direction :: direction
  crit_weight :: real
  crit_group :: criterion_group
  crit_domain :: "real \<Rightarrow> bool"
  crit_curve :: "real \<Rightarrow> real"

text \<open>
  Modelled from the spec: the RawMeasurement (criterion identifier, numeric value, unit
  tag). A missing value is \<open>None\<close>.
\<close>

record raw_measurement =
  raw_criterion :: string
  raw_value :: "number option"
  raw_unit :: string

text \<open>Modelled from the spec: the CriterionScore (identifier, score, level label).\<close>

record criterion_score =
  cs_criterion :: string
  cs_score :: real
  cs_level :: level

text \<open>Modelled from the spec: the GoalSpec of a group (target value, priority weight).\<close>

record goal_spec =
  goal_group :: criterion_group
  goal_target :: real
  goal_priority :: real

text \<open>
  Modelled from the spec: a rule of the recommendation table matches on a criterion
  identifier with a level, or on a decision tier, and contributes one string.
\<close>

datatype rule_match = CriterionAt string level | TierIs tier

text \<open>
  Modelled from the spec: the static configuration (criteria, goals, the weights of the
  two groups in the composite, the risk-factor names and mitigation suggestions keyed by
  criterion identifier, the recommendation rules in their fixed priority order, and the
  affirmative recommendation).
\<close>

record engine_config =
  cfg_criteria :: "criterion list"
  cfg_goals :: "goal_spec list"
  cfg_group_weight :: "criterion_group \<Rightarrow> real"
  cfg_risk_name :: "string \<Rightarrow> string"
  cfg_mitigation :: "string \<Rightarrow> string"
  cfg_rules :: "(rule_match \<times> string) list"
  cfg_affirmative :: string

text \<open>
  Modelled from the spec: the classifier of section 4.4, score >= 90 Excellent, >= 75
  Good, >= 60 Fair, >= 45 Poor, else VeryPoor.
\<close>

definition classify :: "real \<Rightarrow> level" where
  "classify x =
     (if x \<ge> 90 then Excellent
      else if x \<ge> 75 then Good
      else if x \<ge> 60 then Fair
      else if x \<ge> 45 then Poor
      else VeryPoor)"

text \<open>
  Modelled from the spec: the decision tier of a composite level (Excellent and Good are
  the two recommended tiers, Fair is worth considering, Poor and VeryPoor the two not
  recommended tiers), in ordinal order.
\<close>

fun decision_tier :: "level \<Rightarrow> tier" where
  "decision_tier Excellent = StronglyRecommended"
| "decision_tier Good = Recommended"
| "decision_tier Fair = WorthConsidering"
| "decision_tier Poor = NotRecommended"
| "decision_tier VeryPoor = StronglyNotRecommended"

text \<open>Modelled from the spec: the saturation policy, clamp to [0,100].\<close>

definition clamp_score :: "real \<Rightarrow> real" where
  "clamp_score x = max 0 (min 100 x)"

text \<open>
  Modelled from the spec: \<open>normalize(criterion, rawValue)\<close> of section 4.1. It fails with
  InvalidMeasurement when the raw value is missing, not finite or outside the declared
  physical domain; otherwise the score is the value of the configured curve, clamped.
\<close>

definition normalize_measurement :: "criterion \<Rightarrow> number option \<Rightarrow> engine_error + criterion_score" where
  "normalize_measurement c rv =
     (case rv of
        None \<Rightarrow> Inl InvalidMeasurement
      | Some NaN \<Rightarrow> Inl InvalidMeasurement
      | Some NegInf \<Rightarrow> Inl InvalidMeasurement
      | Some PosInf \<Rightarrow> Inl InvalidMeasurement
      | Some (Fin x) \<Rightarrow>
          if crit_domain c x
          then Inr \<lparr>cs_criterion = crit_id c,
                    cs_score = clamp_score (crit_curve c x),
                    cs_level = classify (clamp_score (crit_curve c x))\<rparr>
          else Inl InvalidMeasurement)"

text \<open>
  Modelled from the spec: the raw value of a criterion in a measurement set; a criterion
  with no measurement has a missing value.
\<close>

definition raw_value_of :: "raw_measurement list \<Rightarrow> string \<Rightarrow> number option" where
  "raw_value_of ms k =
     (case find (\<lambda>m. raw_criterion m = k) ms of None \<Rightarrow> None | Some m \<Rightarrow> raw_value m)"

text \<open>
  Modelled from the spec: every criterion of the configuration is normalized, and the
  first InvalidMeasurement ends the run (fail fast, no partial result).
\<close>

fun normalize_all ::
  "criterion list \<Rightarrow> raw_measurement list \<Rightarrow> engine_error + criterion_score list" where
  "normalize_all [] ms = Inr []"
| "normalize_all (c # cs) ms =
     (case normalize_measurement c (raw_value_of ms (crit_id c)) of
        Inl e \<Rightarrow> Inl e
      | Inr s \<Rightarrow> (case normalize_all cs ms of Inl e \<Rightarrow> Inl e | Inr ss \<Rightarrow> Inr (s # ss)))"

text \<open>
  Modelled from the spec: the group score of section 4.3, the sum of weight times score
  over the criteria of the group. The scores come in the order of the criteria.
\<close>

definition group_score ::
  "criterion list \<Rightarrow> criterion_score list \<Rightarrow> criterion_group \<Rightarrow> real" where
  "group_score cs ss g =
     sum_list (map (\<lambda>(c, s). crit_weight c * cs_score s)
                   (filter (\<lambda>(c, s). crit_group c = g) (zip cs ss)))"

text \<open>
  Modelled from the spec: the goal-programming penalty of one group, priority times the
  negative deviation \<open>max(0, target - groupScore)\<close>.
\<close>

definition penalty :: "goal_spec \<Rightarrow> real \<Rightarrow> real" where
  "penalty g s = goal_priority g * max 0 (goal_target g - s)"

text \<open>
  Modelled from the spec: the penalty term of the composite, the sum of the penalties of
  all goals, each against the score of its group.
\<close>

definition penalty_term :: "goal_spec list \<Rightarrow> (criterion_group \<Rightarrow> real) \<Rightarrow> real" where
  "penalty_term goals gs = sum_list (map (\<lambda>g. penalty g (gs (goal_group g))) goals)"

text \<open>
  Modelled from the spec: the composite score, the weighted sum of the two group scores
  minus the penalty term, clamped to [0,100].
\<close>

definition composite_score :: "engine_config \<Rightarrow> (criterion_group \<Rightarrow> real) \<Rightarrow> real" where
  "composite_score cfg gs =
     clamp_score (cfg_group_weight cfg Economic * gs Economic +
                  cfg_group_weight cfg NaturalTechnical * gs NaturalTechnical -
                  penalty_term (cfg_goals cfg) gs)"

text \<open>
  Modelled from the spec: the criteria below the Fair threshold (score < 60) and the test
  for a criterion in VeryPoor, by the classifier.
\<close>

definition sub_threshold :: "criterion_score list \<Rightarrow> criterion_score list" where
  "sub_threshold ss = filter (\<lambda>s. cs_score s < 60) ss"

definition any_very_poor :: "criterion_score list \<Rightarrow> bool" where
  "any_very_poor ss = list_ex (\<lambda>s. classify (cs_score s) = VeryPoor) ss"

text \<open>Modelled from the spec: the RiskAssessment (level, risk factors, mitigations).\<close>

record risk_assessment_result =
  ra_level :: risk
  ra_risks :: "string list"
  ra_mitigations :: "string list"

text \<open>
  Modelled from the spec: \<open>assessRisk(scores, compositeScore)\<close> of section 4.5. Two or
  more criteria below 60, or any criterion in VeryPoor, give High; otherwise one gives
  Medium and none gives Low. Each criterion below 60 contributes its named risk factor
  and, at Medium or High risk, its mitigation suggestion from the rule table.
\<close>

definition assessRisk ::
  "(string \<Rightarrow> string) \<Rightarrow> (string \<Rightarrow> string) \<Rightarrow> criterion_score list \<Rightarrow> real \<Rightarrow>
     risk_assessment_result" where
  "assessRisk risk_name mitigation_for ss compositeScore =
     (let low = sub_threshold ss;
          lvl = (if length low \<ge> 2 \<or> any_very_poor ss then RiskHigh
                 else if length low = 1 then RiskMedium
                 else RiskLow)
      in \<lparr>ra_level = lvl,
          ra_risks = map (\<lambda>s. risk_name (cs_criterion s)) low,
          ra_mitigations =
            (if lvl = RiskLow then [] else map (\<lambda>s. mitigation_for (cs_criterion s)) low)\<rparr>)"

text \<open>
  Modelled from the spec: the wire shape of the risk assessment in section 6, the risk
  level as U+4F4E (low), U+4E2D (medium) or U+9AD8 (high) and the two lists.
\<close>

definition risk_high :: string where
  "risk_high = [CHR 0xE9, CHR 0xAB, CHR 0x98]"

fun risk_label :: "risk \<Rightarrow> string" where
  "risk_label RiskLow = risk_low"
| "risk_label RiskMedium = risk_medium"
| "risk_label RiskHigh = risk_high"

definition risk_assessment_to_json :: "risk_assessment_result \<Rightarrow> risk_assessment_json" where
  "risk_assessment_to_json r =
     \<lparr>risk_level = Some (risk_label (ra_level r)),
      risks = Some (ra_risks r),
      mitigation_measures = Some (ra_mitigations r)\<rparr>"

text \<open>
  Modelled from the spec: whether a rule of the recommendation table matches the
  detailed scores and the decision tier.
\<close>

fun rule_matches :: "criterion_score list \<Rightarrow> tier \<Rightarrow> rule_match \<Rightarrow> bool" where
  "rule_matches ss t (CriterionAt k l) =
     list_ex (\<lambda>s. cs_criterion s = k \<and> cs_level s = l) ss"
| "rule_matches ss t (TierIs t') = (t = t')"

text \<open>
  Modelled from the spec: duplicate recommendations are suppressed, the first
  occurrence keeping its place.
\<close>

fun suppress_duplicates :: "string list \<Rightarrow> string list" where
  "suppress_duplicates [] = []"
| "suppress_duplicates (x # xs) = x # suppress_duplicates (filter (\<lambda>y. y \<noteq> x) xs)"

text \<open>
  Modelled from the spec: \<open>synthesize\<close> of section 4.6. The rules are evaluated in
  their fixed order, and when none contributes the single affirmative recommendation is
  emitted, so the sequence is never empty.
\<close>

definition synthesize :: "engine_config \<Rightarrow> criterion_score list \<Rightarrow> tier \<Rightarrow> string list" where
  "synthesize cfg ss t =
     (let out = suppress_duplicates
                  (map snd (filter (\<lambda>r. rule_matches ss t (fst r)) (cfg_rules cfg)))
      in if out = [] then [cfg_affirmative cfg] else out)"

text \<open>
  Modelled from the spec: the DecisionResult (composite score, its level, decision tier,
  detailed scores, risk assessment, recommendations, analysis timestamp).
\<close>

record decision_result =
  res_composite :: real
  res_level :: level
  res_tier :: tier
  res_detailed :: "criterion_score list"
  res_risk :: risk_assessment_result
  res_recommendations :: "string list"
  res_analysis_date :: nat

text \<open>
  Modelled from the spec: the configuration check at construction. Every weight lies in
  [0,1] and the weights of each group sum to 1 within 1e-6. Goals name a group, so a
  goal cannot refer to something undefined.
\<close>

definition group_weight_sum :: "criterion list \<Rightarrow> criterion_group \<Rightarrow> real" where
  "group_weight_sum cs g = sum_list (map crit_weight (filter (\<lambda>c. crit_group c = g) cs))"

definition valid_config :: "engine_config \<Rightarrow> bool" where
  "valid_config cfg =
     (list_all (\<lambda>c. 0 \<le> crit_weight c \<and> crit_weight c \<le> 1) (cfg_criteria cfg) \<and>
      \<bar>group_weight_sum (cfg_criteria cfg) Economic - 1\<bar> \<le> 1 / 1000000 \<and>
      \<bar>group_weight_sum (cfg_criteria cfg) NaturalTechnical - 1\<bar> \<le> 1 / 1000000)"

text \<open>
  Modelled from the spec: the full pipeline for one candidate site. The data flow is
  Normalizer, Goal-Programming Aggregator, Score Classifier, Risk Assessor,
  Recommendation Synthesizer; with a single candidate the composite is the absolute one
  of the aggregator. The clock reading \<open>now\<close> becomes the analysis timestamp.
\<close>

definition analyze ::
  "engine_config \<Rightarrow> raw_measurement list \<Rightarrow> nat \<Rightarrow> engine_error + decision_result" where
  "analyze cfg ms now =
     (if \<not> valid_config cfg then Inl ConfigurationError
      else
        (case normalize_all (cfg_criteria cfg) ms of
           Inl e \<Rightarrow> Inl e
         | Inr ss \<Rightarrow>
             (let total = composite_score cfg (group_score (cfg_criteria cfg) ss) in
              Inr \<lparr>res_composite = total,
                   res_level = classify total,
                   res_tier = decision_tier (classify total),
                   res_detailed = ss,
                   res_risk = assessRisk (cfg_risk_name cfg) (cfg_mitigation cfg) ss total,
                   res_recommendations = synthesize cfg ss (decision_tier (classify total)),
                   res_analysis_date = now\<rparr>)))"

section \<open>A sample configuration\<close>

text \<open>
  A configuration and a measurement set for running the modelled engine on concrete
  input: five criteria, the economic group holding one of them, linear curves, two goals.
  With a grid measurement of 75 the normalized scores are 80, 70, 75, 70 and 80.
\<close>

definition example_config :: engine_config where
  "example_config =
     \<lparr>cfg_criteria =
        [\<lparr>crit_id = ''land_suitability'', crit_direction = Benefit, crit_weight = 1 / 4,
          crit_group = NaturalTechnical, crit_domain = (\<lambda>x. 0 \<le> x \<and> x \<le> 1),
          crit_curve = (\<lambda>x. 100 * x)\<rparr>,
         \<lparr>crit_id = ''energy_resources'', crit_direction = Benefit, crit_weight = 1 / 4,
          crit_group = NaturalTechnical, crit_domain = (\<lambda>x. 0 \<le> x),
          crit_curve = (\<lambda>x. x / 20)\<rparr>,
         \<lparr>crit_id = ''grid_capacity'', crit_direction = Benefit, crit_weight = 1 / 4,
          crit_group = NaturalTechnical, crit_domain = (\<lambda>x. 0 \<le> x),
          crit_curve = (\<lambda>x. x)\<rparr>,
         \<lparr>crit_id = ''economic_feasibility'', crit_direction = Cost, crit_weight = 1,
          crit_group = Economic, crit_domain = (\<lambda>x. 0 \<le> x),
          crit_curve = (\<lambda>x. 100 - x)\<rparr>,
         \<lparr>crit_id = ''environmental_impact'', crit_direction = Cost, crit_weight = 1 / 4,
          crit_group = NaturalTechnical, crit_domain = (\<lambda>x. 0 \<le> x),
          crit_curve = (\<lambda>x. 100 - x)\<rparr>],
      cfg_goals =
        [\<lparr>goal_group = Economic, goal_target = 65, goal_priority = 1 / 2\<rparr>,
         \<lparr>goal_group = NaturalTechnical, goal_target = 70, goal_priority = 1 / 2\<rparr>],
      cfg_group_weight = (\<lambda>g. case g of Economic \<Rightarrow> 1 / 5 | NaturalTechnical \<Rightarrow> 4 / 5),
      cfg_risk_name = (\<lambda>k. k @ '' constrained''),
      cfg_mitigation = (\<lambda>k. ''improve '' @ k),
      cfg_rules =
        [(CriterionAt ''environmental_impact'' Good, ''keep the environmental safeguards''),
         (CriterionAt ''grid_capacity'' VeryPoor, ''secure a grid connection first''),
         (TierIs Recommended, ''proceed to a detailed site survey'')],
      cfg_affirmative = ''the site is suitable''\<rparr>"

definition example_measurements :: "real \<Rightarrow> raw_measurement list" where
  "example_measurements grid =
     [\<lparr>raw_criterion = ''land_suitability'', raw_value = Some (Fin (4 / 5)),
       raw_unit = ''ratio''\<rparr>,
      \<lparr>raw_criterion = ''energy_resources'', raw_value = Some (Fin 1400),
       raw_unit = ''kWh/m2''\<rparr>,
      \<lparr>raw_criterion = ''grid_capacity'', raw_value = Some (Fin grid), raw_unit = ''MW''\<rparr>,
      \<lparr>raw_criterion = ''economic_feasibility'', raw_value = Some (Fin 30),
       raw_unit = ''index''\<rparr>,
      \<lparr>raw_criterion = ''environmental_impact'', raw_value = Some (Fin 20),
       raw_unit = ''index''\<rparr>]"

text \<open>A stand-in for the host's \<open>parseFloat\<close> on three inputs.\<close>

definition example_parseFloat :: "string \<Rightarrow> number" where
  "example_parseFloat s =
     (if s = ''39.9042'' then Fin 39.9042
      else if s = ''116.4074'' then Fin 116.4074
      else if s = ''91'' then Fin 91
      else NaN)"

text \<open>
  The \<open>decision_recommendation\<close> of the sample response in the API document of the
  repository: overall score 75, five detailed scores, one recommendation (U+8BE5 U+4F4D
  U+7F6E U+9002 U+5408 U+5EFA U+8BBE U+6570 U+636E U+4E2D U+5FC3, the site suits a data
  centre), risk level low with an empty list of risks and no field
  \<open>mitigation_measures\<close>, decision level recommended, no date.
\<close>

definition documented_sample :: decision_recommendation_json where
  "documented_sample =
     \<lparr>overall_score = Some \<lparr>score = Some (Fin 75), level = Some label_good\<rparr>,
      detailed_scores =
        Some [(''land_suitability'', Some \<lparr>score = Some (Fin 80), level = Some label_good\<rparr>),
              (''energy_resources'', Some \<lparr>score = Some (Fin 70), level = Some label_good\<rparr>),
              (''grid_capacity'', Some \<lparr>score = Some (Fin 75), level = Some label_good\<rparr>),
              (''economic_feasibility'',
                 Some \<lparr>score = Some (Fin 70), level = Some label_good\<rparr>),
              (''environmental_impact'',
                 Some \<lparr>score = Some (Fin 80), level = Some label_good\<rparr>)],
      decision_level = Some tier_recommended,
      risk_assessment =
        Some \<lparr>risk_level = Some risk_low, risks = Some [], mitigation_measures = None\<rparr>,
      recommendations =
        Some [[CHR 0xE8, CHR 0xAF, CHR 0xA5, CHR 0xE4, CHR 0xBD, CHR 0x8D, CHR 0xE7, CHR 0xBD,
               CHR 0xAE, CHR 0xE9, CHR 0x80, CHR 0x82, CHR 0xE5, CHR 0x90, CHR 0x88, CHR 0xE5,
               CHR 0xBB, CHR 0xBA, CHR 0xE8, CHR 0xAE, CHR 0xBE, CHR 0xE6, CHR 0x95, CHR 0xB0,
               CHR 0xE6, CHR 0x8D, CHR 0xAE, CHR 0xE4, CHR 0xB8, CHR 0xAD, CHR 0xE5, CHR 0xBF,
               CHR 0x83]],
      analysis_date = None\<rparr>"

section \<open>Facts about the comparisons and the labels\<close>

lemma js_ge_Fin: "js_ge (Fin x) (Fin y) = (y \<le> x)"
  by (simp add: js_ge_def)

lemma js_ge_NaN: "js_ge NaN (Fin y) = False"
  by (simp add: js_ge_def)

lemma js_ge_NegInf: "js_ge NegInf (Fin y) = False"
  by (simp add: js_ge_def)

lemma js_ge_PosInf: "js_ge PosInf (Fin y) = True"
  by (simp add: js_ge_def)

lemmas js_ge_simps = js_ge_Fin js_ge_NaN js_ge_NegInf js_ge_PosInf

lemmas label_defs =
  label_excellent_def label_good_def label_fair_def label_poor_def label_verypoor_def

lemma labels_distinct:
  "distinct [label_verypoor, label_poor, label_fair, label_good, label_excellent]"
  by (simp add: label_defs)

lemma level_rank_labels:
  "level_rank label_verypoor = Some 0"
  "level_rank label_poor = Some 1"
  "level_rank label_fair = Some 2"
  "level_rank label_good = Some 3"
  "level_rank label_excellent = Some 4"
  by (simp_all add: level_rank_def label_defs)

lemma js_ge_trans_le: "js_le x y \<Longrightarrow> js_ge x (Fin t) \<Longrightarrow> js_ge y (Fin t)"
  by (cases x; cases y) (simp_all add: js_ge_def)

section \<open>Score classifier: thresholds\<close>

text \<open>
  Claim C1. The classifier assigns the level by fixed thresholds, a boundary value
  belonging to the higher tier: a score of at least 90 is excellent, from 75 up to but
  not including 90 good, from 60 up to 75 fair, from 45 up to 60 poor, and below 45 very
  poor. In particular 90, 75, 60 and 45 are excellent, good, fair and poor, 89.999 is
  good and 44.999 is very poor. This holds for the copy in AnalysisResults and for the
  copy in DecisionAnalysis. (The thresholds are integers, which doubles hold exactly; the
  doubles nearest to 89.999 and 44.999 lie on the same side of 90 and 45 as the decimals.)
\<close>

theorem getScoreLevel_thresholds:
  fixes s :: number
  defines "P f \<equiv>
     (js_ge s (Fin 90) \<longrightarrow> f s = label_excellent) \<and>
     (js_ge s (Fin 75) \<and> js_lt s (Fin 90) \<longrightarrow> f s = label_good) \<and>
     (js_ge s (Fin 60) \<and> js_lt s (Fin 75) \<longrightarrow> f s = label_fair) \<and>
     (js_ge s (Fin 45) \<and> js_lt s (Fin 60) \<longrightarrow> f s = label_poor) \<and>
     (js_lt s (Fin 45) \<longrightarrow> f s = label_verypoor) \<and>
     f (Fin 90) = label_excellent \<and> f (Fin 75) = label_good \<and>
     f (Fin 60) = label_fair \<and> f (Fin 45) = label_poor \<and>
     f (Fin 89.999) = label_good \<and> f (Fin 44.999) = label_verypoor"
  shows "P AnalysisResults_getScoreLevel \<and> P DecisionAnalysis_getScoreLevel"
  by (cases s)
    (simp_all add: P_def AnalysisResults_getScoreLevel_def DecisionAnalysis_getScoreLevel_def
      js_ge_simps)

theorem getScoreLevel_thresholds_witness:
  "js_ge (Fin 80) (Fin 75) \<and> js_lt (Fin 80) (Fin 90) \<and>
   AnalysisResults_getScoreLevel (Fin 80) = label_good \<and>
   DecisionAnalysis_getScoreLevel (Fin 80) = label_good \<and>
   js_lt NegInf (Fin 45) \<and>
   AnalysisResults_getScoreLevel NegInf = label_verypoor \<and>
   DecisionAnalysis_getScoreLevel NegInf = label_verypoor"
  using getScoreLevel_thresholds [of "Fin 80"] getScoreLevel_thresholds [of NegInf]
  by (simp add: js_ge_simps)

section \<open>Score classifier: exhaustive and monotone\<close>

lemma AnalysisResults_rank:
  "level_rank (AnalysisResults_getScoreLevel s) =
     Some (if js_ge s (Fin 90) then 4 else if js_ge s (Fin 75) then 3
           else if js_ge s (Fin 60) then 2 else if js_ge s (Fin 45) then 1 else 0)"
  by (simp add: AnalysisResults_getScoreLevel_def level_rank_labels)

lemma DecisionAnalysis_rank:
  "level_rank (DecisionAnalysis_getScoreLevel s) =
     Some (if js_ge s (Fin 90) then 4 else if js_ge s (Fin 75) then 3
           else if js_ge s (Fin 60) then 2 else if js_ge s (Fin 45) then 1 else 0)"
  by (simp add: DecisionAnalysis_getScoreLevel_def level_rank_labels)

lemma threshold_rank_mono:
  assumes "js_le x y"
  shows "(if js_ge x (Fin 90) then 4 else if js_ge x (Fin 75) then 3
           else if js_ge x (Fin 60) then 2 else if js_ge x (Fin 45) then 1 else (0::nat))
       \<le> (if js_ge y (Fin 90) then 4 else if js_ge y (Fin 75) then 3
           else if js_ge y (Fin 60) then 2 else if js_ge y (Fin 45) then 1 else 0)"
  using js_ge_trans_le [OF assms, of 90] js_ge_trans_le [OF assms, of 75]
    js_ge_trans_le [OF assms, of 60] js_ge_trans_le [OF assms, of 45]
  by simp

text \<open>
  Claim C8. The classifier is total and ordinally monotone: every score, NaN and the
  infinities included, gets one of the five level labels, the five labels are pairwise
  different (so the level is exactly one of them), and for scores \<open>x <= y\<close> the level of
  \<open>x\<close> is at most the level of \<open>y\<close> in the order very poor < poor < fair < good <
  excellent.
\<close>

theorem getScoreLevel_total_monotone:
  fixes x y :: number
  defines "five \<equiv> [label_verypoor, label_poor, label_fair, label_good, label_excellent]"
  defines "Q f \<equiv>
     f x \<in> set five \<and>
     (js_le x y \<longrightarrow>
        (\<exists>rx ry. level_rank (f x) = Some rx \<and> level_rank (f y) = Some ry \<and> rx \<le> ry))"
  shows "distinct five \<and> Q DecisionAnalysis_getScoreLevel \<and> Q AnalysisResults_getScoreLevel"
proof -
  have d: "distinct five"
    unfolding five_def by (rule labels_distinct)
  have m1: "DecisionAnalysis_getScoreLevel x \<in> set five"
    by (simp add: DecisionAnalysis_getScoreLevel_def five_def)
  have m2: "AnalysisResults_getScoreLevel x \<in> set five"
    by (simp add: AnalysisResults_getScoreLevel_def five_def)
  have o1: "\<exists>rx ry. level_rank (DecisionAnalysis_getScoreLevel x) = Some rx \<and>
      level_rank (DecisionAnalysis_getScoreLevel y) = Some ry \<and> rx \<le> ry" if "js_le x y"
    unfolding DecisionAnalysis_rank using threshold_rank_mono [OF that] by blast
  have o2: "\<exists>rx ry. level_rank (AnalysisResults_getScoreLevel x) = Some rx \<and>
      level_rank (AnalysisResults_getScoreLevel y) = Some ry \<and> rx \<le> ry" if "js_le x y"
    unfolding AnalysisResults_rank using threshold_rank_mono [OF that] by blast
  show ?thesis
    unfolding Q_def using d m1 m2 o1 o2 by blast
qed

theorem getScoreLevel_total_monotone_witness:
  "js_le (Fin 59.5) (Fin 60) \<and>
   (\<exists>rx ry. level_rank (DecisionAnalysis_getScoreLevel (Fin 59.5)) = Some rx \<and>
      level_rank (DecisionAnalysis_getScoreLevel (Fin 60)) = Some ry \<and> rx \<le> ry) \<and>
   (\<exists>rx ry. level_rank (AnalysisResults_getScoreLevel (Fin 59.5)) = Some rx \<and>
      level_rank (AnalysisResults_getScoreLevel (Fin 60)) = Some ry \<and> rx \<le> ry)"
  using getScoreLevel_total_monotone [of "Fin 59.5" "Fin 60"]
  by simp

section \<open>The two copies of the classifier agree\<close>

text \<open>
  Claim C9. The two five-tier classifiers of the components are extensionally equal: for
  every score, \<open>getScoreLevel\<close> of AnalysisResults and of DecisionAnalysis return the
  same label, and the two \<open>getScoreColor\<close> return the same colour.
\<close>

theorem classifiers_agree:
  "AnalysisResults_getScoreLevel s = DecisionAnalysis_getScoreLevel s \<and>
   AnalysisResults_getScoreColor s = DecisionAnalysis_getScoreColor s"
  by (simp add: AnalysisResults_getScoreLevel_def DecisionAnalysis_getScoreLevel_def
      AnalysisResults_getScoreColor_def DecisionAnalysis_getScoreColor_def)


section \<open>The guard of the custom-coordinate button\<close>

lemma in_range_finite:
  "js_ge a (Fin lo) \<and> js_le a (Fin hi) \<longleftrightarrow> (\<exists>x. a = Fin x \<and> lo \<le> x \<and> x \<le> hi)"
  by (cases a) (auto simp: js_ge_def)

text \<open>
  Claim C10. The custom-coordinate entry point guards its input. \<open>handleAnalyze\<close> is
  called exactly when both text inputs are non-empty, the parsed latitude lies in
  [-90, 90] and the parsed longitude in [-180, 180], and then with the parsed values and
  the selected radius; the values that reach it are finite. With an input missing the
  handler raises the alert asking for latitude and longitude, with a parsed value out of
  range (NaN included) the alert asking for a valid range, and in neither case is
  \<open>handleAnalyze\<close> called.
\<close>

theorem analyzeButton_guard:
  fixes parseFloat :: "string \<Rightarrow> number"
  defines "ok la lo \<equiv>
     la \<noteq> [] \<and> lo \<noteq> [] \<and>
     js_ge (parseFloat la) (Fin (- 90)) \<and> js_le (parseFloat la) (Fin 90) \<and>
     js_ge (parseFloat lo) (Fin (- 180)) \<and> js_le (parseFloat lo) (Fin 180)"
  shows
  "(analyzeButton_onClick parseFloat customLat customLng customRadius = CallHandleAnalyze a b c
      \<longleftrightarrow> ok customLat customLng \<and> a = parseFloat customLat \<and> b = parseFloat customLng \<and>
           c = customRadius) \<and>
   (analyzeButton_onClick parseFloat customLat customLng customRadius = CallHandleAnalyze a b c
      \<longrightarrow> (\<exists>x y. a = Fin x \<and> b = Fin y \<and> - 90 \<le> x \<and> x \<le> 90 \<and> - 180 \<le> y \<and> y \<le> 180)) \<and>
   (customLat = [] \<or> customLng = [] \<longrightarrow>
      analyzeButton_onClick parseFloat customLat customLng customRadius = Alert EnterLatLng) \<and>
   (customLat \<noteq> [] \<and> customLng \<noteq> [] \<and> \<not> ok customLat customLng \<longrightarrow>
      analyzeButton_onClick parseFloat customLat customLng customRadius = Alert EnterValidRange)"
proof -
  have fin: "\<exists>x y. parseFloat customLat = Fin x \<and> parseFloat customLng = Fin y \<and>
      - 90 \<le> x \<and> x \<le> 90 \<and> - 180 \<le> y \<and> y \<le> 180" if "ok customLat customLng"
    using that in_range_finite [of "parseFloat customLat" "- 90" 90]
      in_range_finite [of "parseFloat customLng" "- 180" 180]
    unfolding ok_def by blast
  have eq: "analyzeButton_onClick parseFloat customLat customLng customRadius =
      (if ok customLat customLng
       then CallHandleAnalyze (parseFloat customLat) (parseFloat customLng) customRadius
       else if customLat \<noteq> [] \<and> customLng \<noteq> [] then Alert EnterValidRange
       else Alert EnterLatLng)"
    unfolding ok_def analyzeButton_onClick_def Let_def by simp
  have nk: "\<not> ok customLat customLng" if "customLat = [] \<or> customLng = []"
    using that unfolding ok_def by blast
  show ?thesis
    unfolding eq using fin nk by auto
qed

theorem analyzeButton_guard_witness:
  "analyzeButton_onClick example_parseFloat ''39.9042'' ''116.4074'' (Fin 1000) =
     CallHandleAnalyze (Fin 39.9042) (Fin 116.4074) (Fin 1000) \<and>
   analyzeButton_onClick example_parseFloat ''91'' ''116.4074'' (Fin 1000) =
     Alert EnterValidRange \<and>
   analyzeButton_onClick example_parseFloat ''abc'' ''116.4074'' (Fin 1000) =
     Alert EnterValidRange \<and>
   analyzeButton_onClick example_parseFloat [] ''116.4074'' (Fin 1000) = Alert EnterLatLng"
  using
    analyzeButton_guard [where parseFloat = example_parseFloat and customLat = "''39.9042''"
      and customLng = "''116.4074''" and customRadius = "Fin 1000" and a = "Fin 39.9042"
      and b = "Fin 116.4074" and c = "Fin 1000"]
    analyzeButton_guard [where parseFloat = example_parseFloat and customLat = "''91''"
      and customLng = "''116.4074''" and customRadius = "Fin 1000"]
    analyzeButton_guard [where parseFloat = example_parseFloat and customLat = "''abc''"
      and customLng = "''116.4074''" and customRadius = "Fin 1000"]
    analyzeButton_guard [where parseFloat = example_parseFloat and customLat = "[]"
      and customLng = "''116.4074''" and customRadius = "Fin 1000"]
  by (simp add: example_parseFloat_def js_ge_simps)

section \<open>The mitigation column of DecisionAnalysis\<close>

lemma radarData_map_objects:
  "list_all (\<lambda>(k, e). e \<noteq> None) es \<Longrightarrow> \<exists>items. radarData_map es = Inr items"
  by (induction es rule: radarData_map.induct) auto

lemma radarData_map_null:
  "\<not> list_all (\<lambda>(k, e). e \<noteq> None) es \<Longrightarrow> radarData_map es = Inl TypeError"
  by (induction es rule: radarData_map.induct) (auto split: sum.splits)

lemma DecisionAnalysis_renders:
  assumes "list_all (\<lambda>(k, e). e \<noteq> None) (detailed_entries (decision_recommendation d))"
  shows "\<exists>v. DecisionAnalysis (Some d) = Inr (View v) \<and>
      mitigation v = DecisionAnalysis_mitigation (decision_recommendation d) \<and>
      main_risks v = DecisionAnalysis_main_risks (decision_recommendation d) \<and>
      risk_tag v = DecisionAnalysis_risk_tag (decision_recommendation d)"
proof -
  from radarData_map_objects [OF assms] obtain items
    where "radarData (decision_recommendation d) = Inr items"
    unfolding radarData_def by blast
  then show ?thesis
    by (simp add: DecisionAnalysis_def)
qed

text \<open>
  With a null entry among the detailed scores the component throws while it computes
  the radar data, whatever the risk assessment holds, and nothing is rendered.
\<close>

lemma DecisionAnalysis_throws:
  "\<not> list_all (\<lambda>(k, e). e \<noteq> None) (detailed_entries (decision_recommendation d)) \<Longrightarrow>
     DecisionAnalysis (Some d) = Inl TypeError"
  by (simp add: DecisionAnalysis_def radarData_def radarData_map_null)

lemma DecisionAnalysis_view_mitigation:
  "DecisionAnalysis (Some d) = Inr (View v) \<Longrightarrow>
     mitigation v = DecisionAnalysis_mitigation (decision_recommendation d)"
  by (auto simp: DecisionAnalysis_def split: sum.splits)

lemma DecisionAnalysis_mitigation_cases:
  "DecisionAnalysis_mitigation dr =
     (case mitigation_measures_of dr of
        None \<Rightarrow> NoMitigationAlert
      | Some ms \<Rightarrow> if ms = [] then NoMitigationAlert else MeasureList ms)"
  by (simp add: DecisionAnalysis_mitigation_def split: option.splits)

text \<open>
  Claim C6. For every risk assessment the component receives, in a payload whose
  detailed scores are objects as the wire contract has them (no null entry): when the
  mitigation list is empty (what an assessment sends in which nothing triggers a risk) or
  absent (as in the documented sample response), the component renders its view and the
  mitigation column is the explicit alert saying that no mitigation is needed, not an
  empty list; conversely, when the list is not empty the component renders the list and
  the alert is not shown. In every view the component renders, the alert stands exactly
  for an empty or absent list, and an empty list is never rendered.
\<close>

theorem mitigation_panel_explicit:
  fixes d :: analysis_data
  defines "dr \<equiv> decision_recommendation d"
  defines "objects \<equiv> list_all (\<lambda>(k, e). e \<noteq> None) (detailed_entries dr)"
  shows
  "(objects \<and> (mitigation_measures_of dr = None \<or> mitigation_measures_of dr = Some []) \<longrightarrow>
      (\<exists>v. DecisionAnalysis (Some d) = Inr (View v) \<and> mitigation v = NoMitigationAlert)) \<and>
   (objects \<and> mitigation_measures_of dr = Some ms \<and> ms \<noteq> [] \<longrightarrow>
      (\<exists>v. DecisionAnalysis (Some d) = Inr (View v) \<and> mitigation v = MeasureList ms \<and>
           mitigation v \<noteq> NoMitigationAlert)) \<and>
   (DecisionAnalysis (Some d) = Inr (View v') \<longrightarrow>
      (mitigation v' = NoMitigationAlert \<longleftrightarrow>
         mitigation_measures_of dr = None \<or> mitigation_measures_of dr = Some []) \<and>
      mitigation v' \<noteq> MeasureList [])"
proof -
  have r: "\<exists>v. DecisionAnalysis (Some d) = Inr (View v) \<and>
      mitigation v = DecisionAnalysis_mitigation dr" if objects
    using DecisionAnalysis_renders [of d] that unfolding objects_def dr_def by blast
  have a: "\<exists>v. DecisionAnalysis (Some d) = Inr (View v) \<and> mitigation v = NoMitigationAlert"
    if "objects \<and> (mitigation_measures_of dr = None \<or> mitigation_measures_of dr = Some [])"
    using r that by (auto simp: DecisionAnalysis_mitigation_cases)
  have b: "\<exists>v. DecisionAnalysis (Some d) = Inr (View v) \<and> mitigation v = MeasureList ms \<and>
           mitigation v \<noteq> NoMitigationAlert"
    if "objects \<and> mitigation_measures_of dr = Some ms \<and> ms \<noteq> []"
    using r that by (auto simp: DecisionAnalysis_mitigation_cases)
  have c: "(mitigation v' = NoMitigationAlert \<longleftrightarrow>
         mitigation_measures_of dr = None \<or> mitigation_measures_of dr = Some []) \<and>
      mitigation v' \<noteq> MeasureList []"
    if "DecisionAnalysis (Some d) = Inr (View v')"
    using DecisionAnalysis_view_mitigation [OF that]
    by (auto simp: DecisionAnalysis_mitigation_cases dr_def split: option.splits)
  show ?thesis
    using a b c by blast
qed

theorem mitigation_panel_explicit_witness:
  "list_all (\<lambda>(k, e). e \<noteq> None) (detailed_entries (Some documented_sample)) \<and>
   mitigation_measures_of (Some documented_sample) = None \<and>
   (\<exists>v. DecisionAnalysis (Some \<lparr>decision_recommendation = Some documented_sample\<rparr>) =
          Inr (View v) \<and> mitigation v = NoMitigationAlert) \<and>
   mitigation_measures_of
      (Some (documented_sample\<lparr>risk_assessment :=
         Some \<lparr>risk_level = Some risk_low, risks = Some [],
               mitigation_measures = Some []\<rparr>\<rparr>)) = Some [] \<and>
   (\<exists>v. DecisionAnalysis
          (Some \<lparr>decision_recommendation =
             Some (documented_sample\<lparr>risk_assessment :=
               Some \<lparr>risk_level = Some risk_low, risks = Some [],
                     mitigation_measures = Some []\<rparr>\<rparr>)\<rparr>) =
          Inr (View v) \<and> mitigation v = NoMitigationAlert) \<and>
   mitigation_measures_of
      (Some (documented_sample\<lparr>risk_assessment :=
         Some \<lparr>risk_level = Some risk_medium, risks = Some [''grid capacity''],
               mitigation_measures = Some [''upgrade the substation'']\<rparr>\<rparr>)) =
     Some [''upgrade the substation''] \<and>
   (\<exists>v. DecisionAnalysis
          (Some \<lparr>decision_recommendation =
             Some (documented_sample\<lparr>risk_assessment :=
               Some \<lparr>risk_level = Some risk_medium, risks = Some [''grid capacity''],
                     mitigation_measures = Some [''upgrade the substation'']\<rparr>\<rparr>)\<rparr>) =
          Inr (View v) \<and> mitigation v = MeasureList [''upgrade the substation''])"
proof -
  let ?empty = "documented_sample\<lparr>risk_assessment :=
      Some \<lparr>risk_level = Some risk_low, risks = Some [], mitigation_measures = Some []\<rparr>\<rparr>"
  let ?some = "documented_sample\<lparr>risk_assessment :=
      Some \<lparr>risk_level = Some risk_medium, risks = Some [''grid capacity''],
            mitigation_measures = Some [''upgrade the substation'']\<rparr>\<rparr>"
  have o: "list_all (\<lambda>(k, e). e \<noteq> None) (detailed_entries (Some documented_sample))"
    "list_all (\<lambda>(k, e). e \<noteq> None) (detailed_entries (Some ?empty))"
    "list_all (\<lambda>(k, e). e \<noteq> None) (detailed_entries (Some ?some))"
    by (simp_all add: documented_sample_def detailed_entries_def)
  have m: "mitigation_measures_of (Some documented_sample) = None"
    "mitigation_measures_of (Some ?empty) = Some []"
    "mitigation_measures_of (Some ?some) = Some [''upgrade the substation'']"
    by (simp_all add: documented_sample_def mitigation_measures_of_def)
  have a: "\<exists>v. DecisionAnalysis (Some \<lparr>decision_recommendation = Some documented_sample\<rparr>) =
      Inr (View v) \<and> mitigation v = NoMitigationAlert"
    using mitigation_panel_explicit
      [where d = "\<lparr>decision_recommendation = Some documented_sample\<rparr>", THEN conjunct1]
      o(1) m(1)
    by simp
  have b: "\<exists>v. DecisionAnalysis (Some \<lparr>decision_recommendation = Some ?empty\<rparr>) =
      Inr (View v) \<and> mitigation v = NoMitigationAlert"
    using mitigation_panel_explicit
      [where d = "\<lparr>decision_recommendation = Some ?empty\<rparr>", THEN conjunct1]
      o(2) m(2)
    by simp
  have c: "\<exists>v. DecisionAnalysis (Some \<lparr>decision_recommendation = Some ?some\<rparr>) =
      Inr (View v) \<and> mitigation v = MeasureList [''upgrade the substation'']"
    using mitigation_panel_explicit
      [where d = "\<lparr>decision_recommendation = Some ?some\<rparr>"
        and ms = "[''upgrade the substation'']", THEN conjunct2, THEN conjunct1]
      o(3) m(3)
    by auto
  show ?thesis
    using o(1) m a b c by (intro conjI)
qed

section \<open>The modelled normalizer\<close>

lemma clamp_score_range: "0 \<le> clamp_score y \<and> clamp_score y \<le> 100"
  by (simp add: clamp_score_def)

lemma clamp_score_cases:
  "clamp_score y = (if y < 0 then 0 else if y > 100 then 100 else y)"
  by (simp add: clamp_score_def)

lemma normalize_measurement_Inr_iff:
  "normalize_measurement c rv = Inr s \<longleftrightarrow>
     (\<exists>x. rv = Some (Fin x) \<and> crit_domain c x \<and>
          s = \<lparr>cs_criterion = crit_id c, cs_score = clamp_score (crit_curve c x),
               cs_level = classify (clamp_score (crit_curve c x))\<rparr>)"
  by (auto simp: normalize_measurement_def split: option.splits number.splits)

text \<open>
  Claim C7. For every valid raw measurement (present, finite, inside the declared
  physical domain of the criterion) the normalizer returns a score, and the score lies in
  [0,100]: where the value of the configured curve is below 0 or above 100 the score is
  0 or 100, not an error and not a score out of range. The same bounds hold for every
  score the normalizer returns at all.
\<close>

theorem normalize_clamped:
  "(crit_domain c x \<longrightarrow>
      (\<exists>s. normalize_measurement c (Some (Fin x)) = Inr s \<and>
           cs_score s = (if crit_curve c x < 0 then 0
                         else if crit_curve c x > 100 then 100 else crit_curve c x) \<and>
           0 \<le> cs_score s \<and> cs_score s \<le> 100)) \<and>
   (normalize_measurement c rv = Inr s' \<longrightarrow> 0 \<le> cs_score s' \<and> cs_score s' \<le> 100)"
proof -
  have a: "\<exists>s. normalize_measurement c (Some (Fin x)) = Inr s \<and>
           cs_score s = (if crit_curve c x < 0 then 0
                         else if crit_curve c x > 100 then 100 else crit_curve c x) \<and>
           0 \<le> cs_score s \<and> cs_score s \<le> 100" if "crit_domain c x"
    using that clamp_score_range [of "crit_curve c x"]
    by (simp add: normalize_measurement_def clamp_score_cases)
  have b: "0 \<le> cs_score s' \<and> cs_score s' \<le> 100" if "normalize_measurement c rv = Inr s'"
    using that clamp_score_range unfolding normalize_measurement_Inr_iff by auto
  show ?thesis using a b by blast
qed

theorem normalize_clamped_witness:
  "crit_domain \<lparr>crit_id = ''wind_speed'', crit_direction = Benefit, crit_weight = 1 / 4,
       crit_group = NaturalTechnical, crit_domain = (\<lambda>x. 0 \<le> x),
       crit_curve = (\<lambda>x. 20 * x)\<rparr> 8 \<and>
   (\<exists>s. normalize_measurement \<lparr>crit_id = ''wind_speed'', crit_direction = Benefit,
       crit_weight = 1 / 4, crit_group = NaturalTechnical, crit_domain = (\<lambda>x. 0 \<le> x),
       crit_curve = (\<lambda>x. 20 * x)\<rparr> (Some (Fin 8)) = Inr s \<and> cs_score s = 100)"
  using normalize_clamped [where c = "\<lparr>crit_id = ''wind_speed'', crit_direction = Benefit,
       crit_weight = 1 / 4, crit_group = NaturalTechnical, crit_domain = (\<lambda>x. 0 \<le> x),
       crit_curve = (\<lambda>x. 20 * x)\<rparr>" and x = 8, THEN conjunct1]
  by auto

section \<open>The modelled goal-programming penalty\<close>

lemma penalty_met: "goal_target g \<le> s \<Longrightarrow> penalty g s = 0"
  by (simp add: penalty_def)

lemma penalty_term_raise:
  assumes "list_all (\<lambda>g. goal_group g = k \<longrightarrow> goal_target g \<le> gs k) goals" and "gs k \<le> v"
  shows "penalty_term goals (gs(k := v)) = penalty_term goals gs"
proof -
  have "penalty g ((gs(k := v)) (goal_group g)) = penalty g (gs (goal_group g))"
    if "g \<in> set goals" for g
  proof (cases "goal_group g = k")
    case True
    with assms that have "goal_target g \<le> gs k" "goal_target g \<le> v"
      by (auto simp: list_all_iff)
    with True show ?thesis by (simp add: penalty_met)
  next
    case False
    then show ?thesis by simp
  qed
  then have "map (\<lambda>g. penalty g ((gs(k := v)) (goal_group g))) goals =
      map (\<lambda>g. penalty g (gs (goal_group g))) goals"
    by (intro map_cong [OF refl])
  then show ?thesis
    unfolding penalty_term_def by (rule arg_cong)
qed

text \<open>
  Claim C5. The goal-programming penalty is one-sided. The penalty of a group is its
  priority times \<open>max(0, target - groupScore)\<close>, so it is zero at or above the target
  and does not change when such a score is raised. For the penalty term of the composite:
  when the score of one group is at or above the target of every goal of that group,
  raising that score (all other group scores unchanged) leaves the penalty term as it
  was.
\<close>

theorem penalty_one_sided:
  "penalty g s = goal_priority g * max 0 (goal_target g - s) \<and>
   (goal_target g \<le> s \<and> s \<le> s' \<longrightarrow> penalty g s = 0 \<and> penalty g s' = penalty g s) \<and>
   (list_all (\<lambda>g. goal_group g = k \<longrightarrow> goal_target g \<le> gs k) goals \<and> gs k \<le> v \<longrightarrow>
      penalty_term goals (gs(k := v)) = penalty_term goals gs)"
  using penalty_term_raise [of k gs goals v]
  by (simp add: penalty_def)

theorem penalty_one_sided_witness:
  "list_all (\<lambda>g. goal_group g = Economic \<longrightarrow>
        goal_target g \<le> (\<lambda>g. if g = Economic then 80 else 60) Economic)
      [\<lparr>goal_group = Economic, goal_target = 70, goal_priority = 2\<rparr>,
       \<lparr>goal_group = NaturalTechnical, goal_target = 70, goal_priority = 1\<rparr>] \<and>
   (\<lambda>g. if g = Economic then 80 else 60) Economic \<le> (95 :: real) \<and>
   penalty_term
      [\<lparr>goal_group = Economic, goal_target = 70, goal_priority = 2\<rparr>,
       \<lparr>goal_group = NaturalTechnical, goal_target = 70, goal_priority = 1\<rparr>]
      ((\<lambda>g. if g = Economic then 80 else 60)(Economic := 95)) =
   penalty_term
      [\<lparr>goal_group = Economic, goal_target = 70, goal_priority = 2\<rparr>,
       \<lparr>goal_group = NaturalTechnical, goal_target = 70, goal_priority = 1\<rparr>]
      (\<lambda>g. if g = Economic then 80 else 60) \<and>
   penalty_term
      [\<lparr>goal_group = Economic, goal_target = 70, goal_priority = 2\<rparr>,
       \<lparr>goal_group = NaturalTechnical, goal_target = 70, goal_priority = 1\<rparr>]
      (\<lambda>g. if g = Economic then 80 else 60) = 10"
  using penalty_one_sided [where k = Economic and gs = "\<lambda>g. if g = Economic then 80 else 60"
      and v = 95
      and goals = "[\<lparr>goal_group = Economic, goal_target = 70, goal_priority = 2\<rparr>,
       \<lparr>goal_group = NaturalTechnical, goal_target = 70, goal_priority = 1\<rparr>]"]
  by (simp add: penalty_term_def penalty_def)

section \<open>The modelled risk assessor\<close>

lemma very_poor_below_fair: "classify x = VeryPoor \<Longrightarrow> x < 60"
  by (simp add: classify_def split: if_splits)

lemma any_very_poor_sub_threshold: "any_very_poor ss \<Longrightarrow> sub_threshold ss \<noteq> []"
  by (auto simp: any_very_poor_def sub_threshold_def list_ex_iff filter_empty_conv
      dest: very_poor_below_fair)

lemma assessRisk_level:
  "ra_level (assessRisk nm mt ss cscore) =
     (if length (sub_threshold ss) \<ge> 2 \<or> any_very_poor ss then RiskHigh
      else if length (sub_threshold ss) = 1 then RiskMedium else RiskLow)"
  by (simp add: assessRisk_def Let_def)

lemma assessRisk_risks:
  "ra_risks (assessRisk nm mt ss cscore) = map (\<lambda>s. nm (cs_criterion s)) (sub_threshold ss)"
  by (simp add: assessRisk_def Let_def)

lemma assessRisk_mitigations:
  "ra_mitigations (assessRisk nm mt ss cscore) =
     (if ra_level (assessRisk nm mt ss cscore) = RiskLow then []
      else map (\<lambda>s. mt (cs_criterion s)) (sub_threshold ss))"
  by (simp add: assessRisk_def Let_def)

text \<open>
  Claim C4. For every list of criterion scores and every composite score the risk level
  is derived from the criteria with score < 60: none gives Low, two or more give High,
  and so does any criterion in VeryPoor; exactly one gives Medium. The two clauses
  overlap where the only criterion below 60 is in VeryPoor; the clause on severity
  decides there, so Medium is the level of exactly one criterion below 60 that is not in
  VeryPoor. A named risk factor is emitted for each criterion below 60, in order, and at
  Medium or High risk the mitigation suggestions of those criteria are produced, at
  least one. At Low risk both lists are empty.
\<close>

theorem assessRisk_levels:
  fixes ss :: "criterion_score list" and nm mt :: "string \<Rightarrow> string" and cscore :: real
  defines "r \<equiv> assessRisk nm mt ss cscore"
  defines "low \<equiv> sub_threshold ss"
  shows
  "(low = [] \<longrightarrow> ra_level r = RiskLow \<and> ra_risks r = [] \<and> ra_mitigations r = []) \<and>
   (length low = 1 \<and> \<not> any_very_poor ss \<longrightarrow> ra_level r = RiskMedium) \<and>
   (length low \<ge> 2 \<or> any_very_poor ss \<longrightarrow> ra_level r = RiskHigh) \<and>
   ra_risks r = map (\<lambda>s. nm (cs_criterion s)) low \<and>
   (ra_level r = RiskMedium \<or> ra_level r = RiskHigh \<longrightarrow>
      ra_mitigations r = map (\<lambda>s. mt (cs_criterion s)) low \<and> ra_mitigations r \<noteq> [])"
proof -
  have lvl: "ra_level r =
     (if length low \<ge> 2 \<or> any_very_poor ss then RiskHigh
      else if length low = 1 then RiskMedium else RiskLow)"
    unfolding r_def low_def by (rule assessRisk_level)
  have rk: "ra_risks r = map (\<lambda>s. nm (cs_criterion s)) low"
    unfolding r_def low_def by (rule assessRisk_risks)
  have mit: "ra_mitigations r =
     (if ra_level r = RiskLow then [] else map (\<lambda>s. mt (cs_criterion s)) low)"
    unfolding r_def low_def by (rule assessRisk_mitigations)
  have vp: "low \<noteq> []" if "any_very_poor ss"
    unfolding low_def using that by (rule any_very_poor_sub_threshold)
  have a: "ra_level r = RiskLow \<and> ra_risks r = [] \<and> ra_mitigations r = []" if "low = []"
    using that vp by (auto simp: lvl rk mit)
  have b: "ra_level r = RiskMedium" if "length low = 1 \<and> \<not> any_very_poor ss"
    using that by (simp add: lvl)
  have c: "ra_level r = RiskHigh" if "length low \<ge> 2 \<or> any_very_poor ss"
    using that by (simp add: lvl)
  have ne: "low \<noteq> []" if "ra_level r = RiskMedium \<or> ra_level r = RiskHigh"
    using that vp by (auto simp: lvl split: if_splits)
  have d: "ra_mitigations r = map (\<lambda>s. mt (cs_criterion s)) low \<and> ra_mitigations r \<noteq> []"
    if "ra_level r = RiskMedium \<or> ra_level r = RiskHigh"
    using that ne [OF that] by (auto simp: mit)
  show ?thesis
    using a b c d rk by blast
qed

theorem assessRisk_levels_witness:
  "sub_threshold
      [\<lparr>cs_criterion = ''land_suitability'', cs_score = 80, cs_level = Good\<rparr>,
       \<lparr>cs_criterion = ''grid_capacity'', cs_score = 50, cs_level = Poor\<rparr>] =
      [\<lparr>cs_criterion = ''grid_capacity'', cs_score = 50, cs_level = Poor\<rparr>] \<and>
   \<not> any_very_poor
      [\<lparr>cs_criterion = ''land_suitability'', cs_score = 80, cs_level = Good\<rparr>,
       \<lparr>cs_criterion = ''grid_capacity'', cs_score = 50, cs_level = Poor\<rparr>] \<and>
   assessRisk (\<lambda>k. k @ '' constrained'') (\<lambda>k. ''improve '' @ k)
      [\<lparr>cs_criterion = ''land_suitability'', cs_score = 80, cs_level = Good\<rparr>,
       \<lparr>cs_criterion = ''grid_capacity'', cs_score = 50, cs_level = Poor\<rparr>] 65 =
     \<lparr>ra_level = RiskMedium, ra_risks = [''grid_capacity constrained''],
      ra_mitigations = [''improve grid_capacity'']\<rparr> \<and>
   any_very_poor
      [\<lparr>cs_criterion = ''land_suitability'', cs_score = 80, cs_level = Good\<rparr>,
       \<lparr>cs_criterion = ''grid_capacity'', cs_score = 40, cs_level = VeryPoor\<rparr>] \<and>
   assessRisk (\<lambda>k. k @ '' constrained'') (\<lambda>k. ''improve '' @ k)
      [\<lparr>cs_criterion = ''land_suitability'', cs_score = 80, cs_level = Good\<rparr>,
       \<lparr>cs_criterion = ''grid_capacity'', cs_score = 40, cs_level = VeryPoor\<rparr>] 60 =
     \<lparr>ra_level = RiskHigh, ra_risks = [''grid_capacity constrained''],
      ra_mitigations = [''improve grid_capacity'']\<rparr> \<and>
   sub_threshold [\<lparr>cs_criterion = ''land_suitability'', cs_score = 80, cs_level = Good\<rparr>] = [] \<and>
   assessRisk (\<lambda>k. k @ '' constrained'') (\<lambda>k. ''improve '' @ k)
      [\<lparr>cs_criterion = ''land_suitability'', cs_score = 80, cs_level = Good\<rparr>] 80 =
     \<lparr>ra_level = RiskLow, ra_risks = [], ra_mitigations = []\<rparr>"
  using
    assessRisk_levels [where nm = "\<lambda>k. k @ '' constrained''" and mt = "\<lambda>k. ''improve '' @ k"
      and cscore = 65
      and ss = "[\<lparr>cs_criterion = ''land_suitability'', cs_score = 80, cs_level = Good\<rparr>,
       \<lparr>cs_criterion = ''grid_capacity'', cs_score = 50, cs_level = Poor\<rparr>]"]
    assessRisk_levels [where nm = "\<lambda>k. k @ '' constrained''" and mt = "\<lambda>k. ''improve '' @ k"
      and cscore = 60
      and ss = "[\<lparr>cs_criterion = ''land_suitability'', cs_score = 80, cs_level = Good\<rparr>,
       \<lparr>cs_criterion = ''grid_capacity'', cs_score = 40, cs_level = VeryPoor\<rparr>]"]
    assessRisk_levels [where nm = "\<lambda>k. k @ '' constrained''" and mt = "\<lambda>k. ''improve '' @ k"
      and cscore = 80
      and ss = "[\<lparr>cs_criterion = ''land_suitability'', cs_score = 80, cs_level = Good\<rparr>]"]
  by (simp add: sub_threshold_def any_very_poor_def classify_def
      risk_assessment_result.equality)

section \<open>The modelled assessment in the view\<close>

text \<open>
  The producer's side of the mitigation column, for the modelled assessor: when no
  criterion is below 60, the assessment sent in the wire shape carries an empty list of
  risks and an empty list of mitigation measures, and DecisionAnalysis renders the
  low-risk tag, no list of risks and the explicit alert.
\<close>

lemma no_risk_renders_marker:
  assumes "sub_threshold ss = []"
    and "list_all (\<lambda>(k, e). e \<noteq> None) (detailed_entries (Some p))"
    and "risk_assessment p = Some (risk_assessment_to_json (assessRisk nm mt ss cscore))"
  shows "\<exists>v. DecisionAnalysis (Some \<lparr>decision_recommendation = Some p\<rparr>) = Inr (View v) \<and>
      mitigation v = NoMitigationAlert \<and> main_risks v = None \<and>
      risk_tag v = \<lparr>tag_color = ''green'', tag_text = risk_low\<rparr>"
proof -
  have e: "\<not> any_very_poor ss"
    using assms(1) any_very_poor_sub_threshold by blast
  have ra: "risk_assessment_to_json (assessRisk nm mt ss cscore) =
      \<lparr>risk_level = Some risk_low, risks = Some [], mitigation_measures = Some []\<rparr>"
    using assms(1) e by (simp add: risk_assessment_to_json_def assessRisk_def Let_def)
  from DecisionAnalysis_renders [of "\<lparr>decision_recommendation = Some p\<rparr>"] assms(2)
  obtain v where v: "DecisionAnalysis (Some \<lparr>decision_recommendation = Some p\<rparr>) = Inr (View v)"
      "mitigation v = DecisionAnalysis_mitigation (Some p)"
      "main_risks v = DecisionAnalysis_main_risks (Some p)"
      "risk_tag v = DecisionAnalysis_risk_tag (Some p)"
    by auto
  have "mitigation v = NoMitigationAlert"
    by (simp add: v DecisionAnalysis_mitigation_def mitigation_measures_of_def assms(3) ra)
  moreover have "main_risks v = None"
    by (simp add: v DecisionAnalysis_main_risks_def risks_of_def assms(3) ra)
  moreover have "risk_tag v = \<lparr>tag_color = ''green'', tag_text = risk_low\<rparr>"
    by (simp add: v DecisionAnalysis_risk_tag_def risk_level_of_def assms(3) ra string_or_def
        risk_low_def)
  ultimately show ?thesis using v(1) by blast
qed

section \<open>The modelled pipeline\<close>

lemma example_valid: "valid_config example_config"
  by (simp add: valid_config_def example_config_def group_weight_sum_def)

lemma example_normalized:
  "normalize_all (cfg_criteria example_config) (example_measurements 75) =
     Inr [\<lparr>cs_criterion = ''land_suitability'', cs_score = 80, cs_level = Good\<rparr>,
          \<lparr>cs_criterion = ''energy_resources'', cs_score = 70, cs_level = Fair\<rparr>,
          \<lparr>cs_criterion = ''grid_capacity'', cs_score = 75, cs_level = Good\<rparr>,
          \<lparr>cs_criterion = ''economic_feasibility'', cs_score = 70, cs_level = Fair\<rparr>,
          \<lparr>cs_criterion = ''environmental_impact'', cs_score = 80, cs_level = Good\<rparr>]"
  by (simp add: example_config_def example_measurements_def normalize_measurement_def
      raw_value_of_def clamp_score_def classify_def)

lemma example_analysis:
  "analyze example_config (example_measurements 75) now =
     Inr \<lparr>res_composite = 75, res_level = Good, res_tier = Recommended,
          res_detailed =
            [\<lparr>cs_criterion = ''land_suitability'', cs_score = 80, cs_level = Good\<rparr>,
             \<lparr>cs_criterion = ''energy_resources'', cs_score = 70, cs_level = Fair\<rparr>,
             \<lparr>cs_criterion = ''grid_capacity'', cs_score = 75, cs_level = Good\<rparr>,
             \<lparr>cs_criterion = ''economic_feasibility'', cs_score = 70, cs_level = Fair\<rparr>,
             \<lparr>cs_criterion = ''environmental_impact'', cs_score = 80, cs_level = Good\<rparr>],
          res_risk = \<lparr>ra_level = RiskLow, ra_risks = [], ra_mitigations = []\<rparr>,
          res_recommendations =
            [''keep the environmental safeguards'', ''proceed to a detailed site survey''],
          res_analysis_date = now\<rparr>"
  unfolding analyze_def example_normalized
  by (simp add: example_valid)
     (simp add: example_config_def composite_score_def group_score_def penalty_term_def
      penalty_def clamp_score_def classify_def assessRisk_def sub_threshold_def
      any_very_poor_def synthesize_def)

section \<open>Invalid measurements in the modelled pipeline\<close>

lemma normalize_measurement_Inl_iff:
  "normalize_measurement c rv = Inl e \<longleftrightarrow>
     e = InvalidMeasurement \<and>
     (rv = None \<or> rv = Some NaN \<or> rv = Some NegInf \<or> rv = Some PosInf \<or>
      (\<exists>x. rv = Some (Fin x) \<and> \<not> crit_domain c x))"
  by (cases rv; cases e) (auto simp: normalize_measurement_def split: number.splits)

lemma normalize_all_Inl_iff:
  "normalize_all cs ms = Inl e \<longleftrightarrow>
     e = InvalidMeasurement \<and>
     list_ex (\<lambda>c. \<exists>e'. normalize_measurement c (raw_value_of ms (crit_id c)) = Inl e') cs"
proof (induction cs)
  case Nil
  then show ?case by simp
next
  case (Cons c cs)
  show ?case
  proof (cases "normalize_measurement c (raw_value_of ms (crit_id c))")
    case (Inl e')
    then have "e' = InvalidMeasurement"
      by (simp add: normalize_measurement_Inl_iff)
    with Inl show ?thesis by auto
  next
    case (Inr s)
    with Cons show ?thesis by (auto split: sum.splits)
  qed
qed

lemma normalize_all_Inr_scores:
  "normalize_all cs ms = Inr ss \<Longrightarrow>
     list_all2 (\<lambda>c s. normalize_measurement c (raw_value_of ms (crit_id c)) = Inr s) cs ss"
  by (induction cs arbitrary: ss) (auto split: sum.splits)

text \<open>
  Claim C3. For an engine that was constructed (its configuration is valid), a run
  fails with InvalidMeasurement exactly when the raw measurement of some criterion is
  missing, not finite or outside the declared physical domain of the criterion, and then
  no result is returned, not a partial one either. InvalidMeasurement is a failure of
  its own: the other failure, ConfigurationError, is returned exactly for an invalid
  configuration. No value is replaced by a default score: in every result that is
  produced, each detailed score is the clamped curve value of a raw value that is
  present, finite and inside the domain.
\<close>

theorem invalid_measurement_raises:
  fixes cfg :: engine_config and ms :: "raw_measurement list"
  defines "invalid c \<equiv>
     raw_value_of ms (crit_id c) = None \<or> raw_value_of ms (crit_id c) = Some NaN \<or>
     raw_value_of ms (crit_id c) = Some NegInf \<or> raw_value_of ms (crit_id c) = Some PosInf \<or>
     (\<exists>x. raw_value_of ms (crit_id c) = Some (Fin x) \<and> \<not> crit_domain c x)"
  shows
  "(valid_config cfg \<longrightarrow>
      (analyze cfg ms now = Inl InvalidMeasurement \<longleftrightarrow> list_ex invalid (cfg_criteria cfg)) \<and>
      (list_ex invalid (cfg_criteria cfg) \<longrightarrow> (\<forall>r. analyze cfg ms now \<noteq> Inr r))) \<and>
   (analyze cfg ms now = Inl ConfigurationError \<longleftrightarrow> \<not> valid_config cfg) \<and>
   (analyze cfg ms now = Inr r \<longrightarrow>
      list_all2
        (\<lambda>c s. \<exists>x. raw_value_of ms (crit_id c) = Some (Fin x) \<and> crit_domain c x \<and>
                s = \<lparr>cs_criterion = crit_id c, cs_score = clamp_score (crit_curve c x),
                     cs_level = classify (clamp_score (crit_curve c x))\<rparr>)
        (cfg_criteria cfg) (res_detailed r))"
proof -
  have inv: "(\<exists>e'. normalize_measurement c (raw_value_of ms (crit_id c)) = Inl e') = invalid c"
    for c
    unfolding invalid_def normalize_measurement_Inl_iff by blast
  have na: "normalize_all (cfg_criteria cfg) ms = Inl e \<longleftrightarrow>
      e = InvalidMeasurement \<and> list_ex invalid (cfg_criteria cfg)" for e
    unfolding normalize_all_Inl_iff inv ..
  have a: "analyze cfg ms now = Inl InvalidMeasurement \<longleftrightarrow> list_ex invalid (cfg_criteria cfg)"
    if "valid_config cfg"
    using that na [of InvalidMeasurement]
    by (auto simp: analyze_def Let_def split: sum.splits)
  have b: "\<forall>r. analyze cfg ms now \<noteq> Inr r"
    if "valid_config cfg" "list_ex invalid (cfg_criteria cfg)"
    using a [OF that(1)] that(2) by simp
  have c: "analyze cfg ms now = Inl ConfigurationError \<longleftrightarrow> \<not> valid_config cfg"
    using na [of ConfigurationError]
    by (auto simp: analyze_def Let_def split: sum.splits)
  have d: "list_all2
        (\<lambda>c s. \<exists>x. raw_value_of ms (crit_id c) = Some (Fin x) \<and> crit_domain c x \<and>
                s = \<lparr>cs_criterion = crit_id c, cs_score = clamp_score (crit_curve c x),
                     cs_level = classify (clamp_score (crit_curve c x))\<rparr>)
        (cfg_criteria cfg) (res_detailed r)"
    if "analyze cfg ms now = Inr r"
  proof -
    from that obtain ss where ss: "normalize_all (cfg_criteria cfg) ms = Inr ss"
      and r: "res_detailed r = ss"
      by (auto simp: analyze_def Let_def split: sum.splits if_splits)
    show ?thesis
      unfolding r
      using normalize_all_Inr_scores [OF ss]
      by (simp add: normalize_measurement_Inr_iff)
  qed
  show ?thesis
    using a b c d by blast
qed

theorem invalid_measurement_raises_witness:
  "valid_config example_config \<and>
   raw_value_of (example_measurements (- 5)) ''grid_capacity'' = Some (Fin (- 5)) \<and>
   analyze example_config (example_measurements (- 5)) 0 = Inl InvalidMeasurement \<and>
   raw_value_of (tl (example_measurements 75)) ''land_suitability'' = None \<and>
   analyze example_config (tl (example_measurements 75)) 0 = Inl InvalidMeasurement"
  using
    invalid_measurement_raises [where cfg = example_config and ms = "example_measurements (- 5)"
      and now = 0, THEN conjunct1]
    invalid_measurement_raises [where cfg = example_config and ms = "tl (example_measurements 75)"
      and now = 0, THEN conjunct1]
    example_valid
  by (simp add: example_config_def example_measurements_def raw_value_of_def)

end
